theory Spec2Isabelle
  imports Main
begin

text \<open>
  The test library \<open>library.js\<close>: checkpoints, annotations and the \<open>Test\<close> object
  with its counters, its expected count, its liveness timer and its completion callback.
  Each method of \<open>Test\<close> is a function from the test before the call to the test after
  it, together with the value returned and the calls made to the outside.
\<close>

section \<open>JavaScript values\<close>

text \<open>
  The values that reach the test library from its callers: finish reasons, annotation
  data and thrown values. \<open>JObj\<close> is an object (an \<open>Error\<close>, say), given by the
  text its \<open>toString\<close> returns; an object is always truthy. Numbers are the integers
  (the counters of the library only ever add and subtract one).
\<close>

datatype jsval =
    JUndefined
  | JNull
  | JBool bool
  | JNum int
  | JStr string
  | JObj string

text \<open>JavaScript's ToBoolean: what \<open>if (v)\<close> and \<open>!!v\<close> test.\<close>

fun truthy :: "jsval \<Rightarrow> bool" where
  "truthy JUndefined = False"
| "truthy JNull = False"
| "truthy (JBool b) = b"
| "truthy (JNum n) = (n \<noteq> 0)"
| "truthy (JStr s) = (s \<noteq> [])"
| "truthy (JObj s) = True"

text \<open>JavaScript's \<open>v == null\<close>: true of \<open>null\<close> and of \<open>undefined\<close> only.\<close>

fun loosely_null :: "jsval \<Rightarrow> bool" where
  "loosely_null JUndefined = True"
| "loosely_null JNull = True"
| "loosely_null v = False"

text \<open>Decimal digits of a number, as string concatenation prints them.\<close>

fun show_nat :: "nat \<Rightarrow> string" where
  "show_nat n =
     (if n < 10 then [char_of (48 + n)]
      else show_nat (n div 10) @ [char_of (48 + n mod 10)])"

declare show_nat.simps [simp del]

definition show_int :: "int \<Rightarrow> string" where
  "show_int i = (if i < 0 then CHR ''-'' # show_nat (nat (- i)) else show_nat (nat i))"

text \<open>JavaScript's ToString, as \<open>"..." + v\<close> applies it.\<close>

fun toString :: "jsval \<Rightarrow> string" where
  "toString JUndefined = ''undefined''"
| "toString JNull = ''null''"
| "toString (JBool b) = (if b then ''true'' else ''false'')"
| "toString (JNum n) = show_int n"
| "toString (JStr s) = s"
| "toString (JObj s) = s"

text \<open>\<open>"'" + s + "'"\<close>: the text between two apostrophes.\<close>

definition quoted :: "string \<Rightarrow> string" where
  "quoted s = CHR 0x27 # s @ [CHR 0x27]"

text \<open>
  Functions are opaque: a function the caller supplies (a completion callback, a subtest
  body) is known by a number, and \<open>BoundSubtestFinished\<close> is the \<open>_subtestFinished\<close>
  handler a parent binds to itself in its constructor and hands to every subtest.
\<close>

datatype func = UserFunction nat | BoundSubtestFinished

text \<open>An optional argument in the \<open>timeout\<close>, \<open>cb\<close> and \<open>body\<close> positions.\<close>

datatype arg = Undefined | Number int | Function func

fun is_function :: "arg \<Rightarrow> bool" where
  "is_function (Function f) = True"
| "is_function a = False"

section \<open>Checkpoints, annotations and tests\<close>

text \<open>
  What \<open>contents\<close> holds, in arrival order: a \<open>Checkpoint(name, passed)\<close>, an
  \<open>Annotation(kind, data)\<close> or a subtest. The kind of an annotation is the string the
  library passes, \<open>"comment"\<close> or \<open>"error"\<close>. A subtest entry is the \<open>Test\<close> object
  that \<open>test\<close> constructed and pushed.
\<close>

datatype 'test entry =
    Checkpoint string bool
  | Annotation string jsval
  | Subtest 'test

text \<open>
  The fields of a \<open>Test\<close> other than \<open>contents\<close>. \<open>timer\<close> is \<open>_timer\<close>: the delay of
  the scheduled \<open>setTimeout\<close>, or \<open>None\<close> when none is scheduled. \<open>clientFinished\<close>
  is \<open>_clientFinished\<close>.
\<close>

record props =
  name :: string
  passed :: int
  failed :: int
  expected :: "int option"
  total :: int
  pending :: int
  finished :: bool
  finishReason :: jsval
  errors :: int
  timeout :: int
  timer :: "int option"
  clientFinished :: arg

datatype test = TestObject (props: props) (contents: "test entry list")

definition modify :: "(props \<Rightarrow> props) \<Rightarrow> test \<Rightarrow> test" where
  "modify f t = TestObject (f (props t)) (contents t)"

definition push :: "test entry \<Rightarrow> test \<Rightarrow> test" where
  "push e t = TestObject (props t) (contents t @ [e])"

text \<open>
  What an operation does beyond changing the test: \<open>Call f reason passed\<close> is the call
  \<open>this._clientFinished(reason, passed)\<close> of \<open>_notifyFinish\<close>, and \<open>NextTick body\<close> is
  the \<open>process.nextTick\<close> of \<open>run\<close> that will call \<open>body\<close> with the test.
\<close>

datatype effect = Call func jsval bool | NextTick func

definition DEFAULT_TIMEOUT :: int where
  "DEFAULT_TIMEOUT = 5000"

section \<open>The operations of a test\<close>

definition ping :: "test \<Rightarrow> test" where
  "ping t =
     (let t1 = (if timer (props t) \<noteq> None then modify (\<lambda>p. p\<lparr>timer := None\<rparr>) t else t)
      in if \<not> finished (props t1)
         then (if timeout (props t1) > 0
               then modify (\<lambda>p. p\<lparr>timer := Some (timeout p)\<rparr>) t1
               else t1)
         else t1)"

definition comment :: "jsval \<Rightarrow> test \<Rightarrow> test" where
  "comment data t = push (Annotation ''comment'' data) (ping t)"

definition error :: "jsval \<Rightarrow> test \<Rightarrow> test" where
  "error data t =
     modify (\<lambda>p. p\<lparr>errors := errors p + 1\<rparr>) (push (Annotation ''error'' data) (ping t))"

definition isComplete :: "test \<Rightarrow> bool" where
  "isComplete t =
     (finished (props t) \<and> pending (props t) = 0 \<and>
      (expected (props t) = None \<or> expected (props t) = Some (total (props t))))"

definition isPassed :: "test \<Rightarrow> bool" where
  "isPassed t =
     (isComplete t \<and> \<not> truthy (finishReason (props t)) \<and>
      failed (props t) = 0 \<and> errors (props t) = 0)"

definition notifyFinish :: "test \<Rightarrow> effect list" where
  "notifyFinish t =
     (case clientFinished (props t) of
        Function f \<Rightarrow> [Call f (finishReason (props t)) (isPassed t)]
      | _ \<Rightarrow> [])"

definition finish :: "jsval \<Rightarrow> test \<Rightarrow> test \<times> effect list" where
  "finish reason t =
     (if \<not> finished (props t) then
        (let t1 = modify (\<lambda>p. p\<lparr>finished := True\<rparr>) t;
             t2 = ping t1;
             t3 = modify (\<lambda>p. p\<lparr>finishReason := reason\<rparr>) t2;
             t4 = (if truthy (finishReason (props t3)) then
                     (if finishReason (props t3) = JStr ''bail'' then
                        error (JStr ''Test bailed due to an uncaught exception.'') t3
                      else if finishReason (props t3) = JStr ''timeout'' then
                        error (JStr (''Test timed out due to no activity in '' @
                                     show_int (timeout (props t3)) @ '' milliseconds.'')) t3
                      else
                        error (JStr (''Test finished abnormally, reason given was '' @
                                     quoted (toString (finishReason (props t3))))) t3)
                   else t3)
         in if pending (props t4) = 0 then (t4, notifyFinish t4) else (t4, []))
      else
        (error (JStr (''An extra attempt was made to finish the test, the reason this time was: '' @
                      quoted (toString reason))) t, []))"

definition checkExpected :: "test \<Rightarrow> test \<times> effect list" where
  "checkExpected t =
     (if expected (props t) \<noteq> None \<and> expected (props t) = Some (total (props t))
      then finish JUndefined t
      else (t, []))"

definition addExpected :: "int \<Rightarrow> test \<Rightarrow> test" where
  "addExpected count t =
     (if \<not> finished (props t) then
        (let t1 = ping t
         in if expected (props t1) = None
            then modify (\<lambda>p. p\<lparr>expected := Some count\<rparr>) t1
            else modify (\<lambda>p. p\<lparr>expected := map_option (\<lambda>e. e + count) (expected p)\<rparr>) t1)
      else
        error (JStr (''Expected test count increased by '' @ show_int count @
                     '' after completion.'')) t)"

text \<open>
  The first argument of \<open>check\<close>: a value, or a function. The function is called at
  once and either returns or throws a value; it is taken not to call back into the test.
\<close>

datatype outcome = Returns | Throws jsval

datatype result_arg = Value jsval | Callable outcome

text \<open>
  The \<open>try\<close>/\<open>catch\<close> of \<open>check\<close>: the pair of \<open>error\<close> (\<open>undefined\<close> unless the
  function threw) and the boolean \<open>result\<close>.
\<close>

fun evaluate :: "result_arg \<Rightarrow> jsval \<times> bool" where
  "evaluate (Callable Returns) = (JUndefined, True)"
| "evaluate (Callable (Throws e)) = (e, False)"
| "evaluate (Value v) = (JUndefined, truthy v)"

definition check :: "result_arg \<Rightarrow> string \<Rightarrow> test \<Rightarrow> jsval \<times> test \<times> effect list" where
  "check result nm t =
     (if \<not> finished (props t) then
        (let t1 = ping t;
             (err, result') = evaluate result;
             t2 = push (Checkpoint nm result') t1;
             t3 = (if result' then modify (\<lambda>p. p\<lparr>passed := passed p + 1\<rparr>) t2
                   else modify (\<lambda>p. p\<lparr>failed := failed p + 1\<rparr>) t2);
             t4 = modify (\<lambda>p. p\<lparr>total := total p + 1\<rparr>) t3;
             t5 = (if truthy err then error err t4 else t4);
             (t6, effs) = checkExpected t5
         in (JBool result', t6, effs))
      else
        (JUndefined,
         error (JStr (''Checkpoint '' @ quoted nm @ '' triggered after test was completed'')) t,
         []))"

text \<open>The argument overloading of \<open>Test\<close> and of \<open>test\<close>: \<open>timeout\<close> is optional.\<close>

definition overload :: "arg \<Rightarrow> arg \<Rightarrow> arg \<times> arg" where
  "overload tmo f = (if is_function tmo then (Undefined, tmo) else (tmo, f))"

text \<open>
  \<open>(typeof timeout === "undefined") ? DEFAULT_TIMEOUT : timeout\<close>. The constructor
  has moved a function out of \<open>timeout\<close> before, so the last case is never reached.
\<close>

fun timeout_or_default :: "arg \<Rightarrow> int" where
  "timeout_or_default Undefined = DEFAULT_TIMEOUT"
| "timeout_or_default (Number n) = n"
| "timeout_or_default (Function f) = DEFAULT_TIMEOUT"

text \<open>The constructor \<open>new Test(name, timeout, cb)\<close>.\<close>

definition Test :: "string \<Rightarrow> arg \<Rightarrow> arg \<Rightarrow> test" where
  "Test nm tmo cb =
     (let (tmo', cb') = overload tmo cb
      in ping (TestObject
           \<lparr>name = nm, passed = 0, failed = 0, expected = None, total = 0, pending = 0,
            finished = False, finishReason = JNull, errors = 0,
            timeout = timeout_or_default tmo', timer = None, clientFinished = cb'\<rparr>
           []))"

text \<open>
  \<open>run(body)\<close> changes no field: it registers \<open>_onError\<close> on a fresh domain and defers
  the body by one tick.
\<close>

definition run :: "func \<Rightarrow> test \<Rightarrow> effect list" where
  "run body t = [NextTick body]"

text \<open>
  \<open>test(name, timeout, body)\<close>: the value returned (the subtest, or \<open>undefined\<close> as
  \<open>None\<close>), the parent afterwards and the effects.
\<close>

definition test :: "string \<Rightarrow> arg \<Rightarrow> arg \<Rightarrow> test \<Rightarrow> test option \<times> test \<times> effect list" where
  "test nm tmo body t =
     (let (tmo', body') = overload tmo body
      in if \<not> finished (props t) then
           (let t1 = ping t;
                result = Test nm tmo' (Function BoundSubtestFinished);
                t2 = push (Subtest result) t1;
                t3 = modify (\<lambda>p. p\<lparr>pending := pending p + 1\<rparr>) t2;
                t4 = modify (\<lambda>p. p\<lparr>total := total p + 1\<rparr>) t3;
                (t5, effs) = checkExpected t4
            in (case body' of
                  Function b \<Rightarrow> (None, t5, effs @ run b result)
                | _ \<Rightarrow> (Some result, t5, effs)))
         else
           (None,
            error (JStr (''Subtest '' @ quoted nm @ '' triggered after test was completed'')) t,
            []))"

text \<open>\<open>_subtestFinished(reason, passed)\<close>, which a subtest calls when it resolves.\<close>

definition subtestFinished :: "jsval \<Rightarrow> bool \<Rightarrow> test \<Rightarrow> test \<times> effect list" where
  "subtestFinished reason psd t =
     (let t1 = (if \<not> truthy reason \<and> psd
                then modify (\<lambda>p. p\<lparr>passed := passed p + 1\<rparr>) t
                else modify (\<lambda>p. p\<lparr>failed := failed p + 1\<rparr>) t);
          t2 = modify (\<lambda>p. p\<lparr>pending := pending p - 1\<rparr>) t1
      in if pending (props t2) = 0 \<and> finished (props t2)
         then (t2, notifyFinish t2)
         else (t2, []))"

text \<open>\<open>_onError(err)\<close>, the handler of the domain of \<open>run\<close>.\<close>

definition onError :: "jsval \<Rightarrow> test \<Rightarrow> test \<times> effect list" where
  "onError err t = finish (JStr ''bail'') (error err t)"

text \<open>
  The callback \<open>ping\<close> hands to \<open>setTimeout\<close>. It runs only when a timer is scheduled.
\<close>

definition timerFires :: "test \<Rightarrow> test \<times> effect list" where
  "timerFires t =
     (case timer (props t) of
        None \<Rightarrow> (t, [])
      | Some d \<Rightarrow> finish (JStr ''timeout'') t)"

section \<open>Runs of one test\<close>

text \<open>
  Everything that can happen to a test: a call of one of its methods, its timer firing,
  the domain of \<open>run\<close> reporting an error, and a subtest reporting that it resolved.
  The methods of the library touch the fields of one test only, their own \<open>this\<close>; the
  one link between two tests is the callback: a subtest's \<open>Call BoundSubtestFinished\<close>
  is the event \<open>SubtestFinished\<close> of its parent. A run of a test is any list of these
  events, in any order, so it covers whatever its subtests and its callers do.
\<close>

datatype event =
    Ping
  | Check result_arg string
  | AddExpected int
  | Comment jsval
  | Error jsval
  | NewSubtest string arg arg
  | Run func
  | Finish jsval
  | OnError jsval
  | TimerFires
  | SubtestFinished jsval bool

fun step :: "event \<Rightarrow> test \<Rightarrow> test \<times> effect list" where
  "step Ping t = (ping t, [])"
| "step (Check result nm) t = snd (check result nm t)"
| "step (AddExpected count) t = (addExpected count t, [])"
| "step (Comment data) t = (comment data t, [])"
| "step (Error data) t = (error data t, [])"
| "step (NewSubtest nm tmo body) t = snd (test nm tmo body t)"
| "step (Run body) t = (t, run body t)"
| "step (Finish reason) t = finish reason t"
| "step (OnError err) t = onError err t"
| "step TimerFires t = timerFires t"
| "step (SubtestFinished reason psd) t = subtestFinished reason psd t"

fun exec :: "event list \<Rightarrow> test \<Rightarrow> test \<times> effect list" where
  "exec [] t = (t, [])"
| "exec (ev # evs) t =
     (let (t1, effs1) = step ev t;
          (t2, effs2) = exec evs t1
      in (t2, effs1 @ effs2))"

text \<open>The calls of the completion callback among the effects.\<close>

fun is_call :: "effect \<Rightarrow> bool" where
  "is_call (Call f reason psd) = True"
| "is_call (NextTick body) = False"

definition calls :: "effect list \<Rightarrow> effect list" where
  "calls effs = filter is_call effs"

text \<open>How many of the events of a run are subtests reporting that they resolved.\<close>

fun is_resolution :: "event \<Rightarrow> bool" where
  "is_resolution (SubtestFinished reason psd) = True"
| "is_resolution ev = False"

definition resolutions :: "event list \<Rightarrow> nat" where
  "resolutions evs = length (filter is_resolution evs)"

section \<open>Example tests\<close>

text \<open>
  A root test with no timeout and a completion callback; the same test after it has
  started one subtest; and after it has then called \<open>finish()\<close> with the subtest
  still pending.
\<close>

definition example_root :: test where
  "example_root = Test ''root'' (Number 0) (Function (UserFunction 0))"

definition example_waiting :: test where
  "example_waiting = fst (snd (test ''child'' Undefined Undefined example_root))"

definition example_deferred :: test where
  "example_deferred = fst (finish JUndefined example_waiting)"

section \<open>What each operation does to the fields\<close>

lemma props_modify [simp]: "props (modify f t) = f (props t)"
  by (simp add: modify_def)

lemma contents_modify [simp]: "contents (modify f t) = contents t"
  by (simp add: modify_def)

lemma props_push [simp]: "props (push e t) = props t"
  by (simp add: push_def)

lemma contents_push [simp]: "contents (push e t) = contents t @ [e]"
  by (simp add: push_def)

lemma props_ping:
  "props (ping t) =
     (props t)\<lparr>timer := (if \<not> finished (props t) \<and> 0 < timeout (props t)
                         then Some (timeout (props t)) else None)\<rparr>"
  by (simp add: ping_def Let_def)

lemma contents_ping [simp]: "contents (ping t) = contents t"
  by (simp add: ping_def Let_def)

lemma props_error:
  "props (error d t) =
     (props t)\<lparr>errors := errors (props t) + 1,
               timer := (if \<not> finished (props t) \<and> 0 < timeout (props t)
                         then Some (timeout (props t)) else None)\<rparr>"
  by (simp add: error_def props_ping)

lemma contents_error [simp]: "contents (error d t) = contents t @ [Annotation ''error'' d]"
  by (simp add: error_def)

lemma props_comment:
  "props (comment d t) =
     (props t)\<lparr>timer := (if \<not> finished (props t) \<and> 0 < timeout (props t)
                         then Some (timeout (props t)) else None)\<rparr>"
  by (simp add: comment_def props_ping)

lemma finish_again:
  "finished (props t) \<Longrightarrow>
   finish r t =
     (error (JStr (''An extra attempt was made to finish the test, the reason this time was: '' @
                   quoted (toString r))) t, [])"
  by (simp add: finish_def)

lemma props_finish_first:
  "\<not> finished (props t) \<Longrightarrow>
   props (fst (finish r t)) =
     (props t)\<lparr>finished := True, finishReason := r, timer := None,
               errors := errors (props t) + (if truthy r then 1 else 0)\<rparr>"
  by (simp add: finish_def Let_def props_ping props_error)

lemma effects_finish_first:
  "\<not> finished (props t) \<Longrightarrow>
   snd (finish r t) = (if pending (props t) = 0 then notifyFinish (fst (finish r t)) else [])"
  by (simp add: finish_def Let_def props_ping props_error)


lemma effects_finish:
  "snd (finish r t) =
     (if \<not> finished (props t) \<and> pending (props t) = 0 then notifyFinish (fst (finish r t)) else [])"
  by (simp add: finish_def Let_def props_ping props_error)

lemma finished_finish [simp]: "finished (props (fst (finish r t)))"
  by (cases "finished (props t)") (simp_all add: finish_again props_error props_finish_first)

lemma pending_finish [simp]: "pending (props (fst (finish r t))) = pending (props t)"
  by (cases "finished (props t)") (simp_all add: finish_again props_error props_finish_first)

lemma calls_notifyFinish [simp]: "calls (notifyFinish t) = notifyFinish t"
  by (simp add: calls_def notifyFinish_def split: arg.splits)

lemma length_notifyFinish: "length (notifyFinish t) \<le> 1"
  by (simp add: notifyFinish_def split: arg.splits)

lemma checkExpected_cases:
  "checkExpected t = (t, []) \<or> (\<exists>r. checkExpected t = finish r t)"
  by (auto simp add: checkExpected_def)

lemma finished_checkExpected:
  "finished (props (fst (checkExpected t))) =
     (finished (props t) \<or> expected (props t) = Some (total (props t)))"
  by (auto simp add: checkExpected_def)

lemma pending_checkExpected [simp]: "pending (props (fst (checkExpected t))) = pending (props t)"
  by (simp add: checkExpected_def)

lemma effects_checkExpected:
  "snd (checkExpected t) =
     (if expected (props t) = Some (total (props t)) \<and> \<not> finished (props t) \<and> pending (props t) = 0
      then notifyFinish (fst (checkExpected t)) else [])"
  by (auto simp add: checkExpected_def effects_finish)


lemma calls_simps [simp]:
  "calls [] = []"
  "calls (xs @ ys) = calls xs @ calls ys"
  "calls (NextTick b # xs) = calls xs"
  "calls (Call f r p # xs) = Call f r p # calls xs"
  by (simp_all add: calls_def)

lemma calls_run [simp]: "calls (run b t) = []"
  by (simp add: run_def)

lemma step_pending_finished:
  "finished (props t) \<Longrightarrow>
   finished (props (fst (step ev t))) \<and>
   pending (props (fst (step ev t))) =
     pending (props t) - (case ev of SubtestFinished r p \<Rightarrow> 1 | _ \<Rightarrow> 0)"
  by (cases ev)
     (simp_all add: props_ping props_error props_comment check_def test_def addExpected_def
        onError_def timerFires_def subtestFinished_def Let_def split: prod.splits option.splits)

lemma step_effects_finished:
  "finished (props t) \<Longrightarrow>
   calls (snd (step ev t)) =
     (case ev of
        SubtestFinished r p \<Rightarrow>
          if pending (props t) = 1 then notifyFinish (fst (step ev t)) else []
      | _ \<Rightarrow> [])"
  by (cases ev)
     (simp_all add: props_ping props_error props_comment check_def test_def addExpected_def
        onError_def timerFires_def subtestFinished_def Let_def finish_again
        split: prod.splits option.splits)

lemma check_unfinished:
  "\<not> finished (props t) \<Longrightarrow>
   check result nm t =
     (let (err, b) = evaluate result;
          t1 = modify (\<lambda>p. p\<lparr>total := total p + 1\<rparr>)
                 (modify (\<lambda>p. if b then p\<lparr>passed := passed p + 1\<rparr> else p\<lparr>failed := failed p + 1\<rparr>)
                    (push (Checkpoint nm b) (ping t)));
          t2 = (if truthy err then error err t1 else t1)
      in (JBool b, checkExpected t2))"
  by (simp add: check_def Let_def modify_def split: prod.splits)

lemma test_unfinished:
  "\<not> finished (props t) \<Longrightarrow>
   test nm tmo body t =
     (let child = Test nm (fst (overload tmo body)) (Function BoundSubtestFinished);
          t1 = modify (\<lambda>p. p\<lparr>total := total p + 1\<rparr>)
                 (modify (\<lambda>p. p\<lparr>pending := pending p + 1\<rparr>) (push (Subtest child) (ping t)));
          r = checkExpected t1
      in (case snd (overload tmo body) of
            Function b \<Rightarrow> (None, fst r, snd r @ run b child)
          | _ \<Rightarrow> (Some child, fst r, snd r)))"
  by (simp add: test_def Let_def split: prod.splits arg.splits)

lemma step_calls:
  "calls (snd (step ev t)) = [] \<or>
   (calls (snd (step ev t)) = notifyFinish (fst (step ev t)) \<and>
    finished (props (fst (step ev t))) \<and> pending (props (fst (step ev t))) = 0)"
proof (cases "finished (props t)")
  case True
  then show ?thesis
    using step_pending_finished [OF True, of ev] step_effects_finished [OF True, of ev]
    by (cases ev) (simp_all split: if_splits)
next
  case unfinished: False
  show ?thesis
  proof (cases ev)
    case (Check result nm)
    then show ?thesis using unfinished
      by (simp add: check_unfinished Let_def effects_checkExpected finished_checkExpected
          split: prod.splits)
  next
    case (NewSubtest nm tmo body)
    then show ?thesis using unfinished
      by (simp add: test_unfinished Let_def effects_checkExpected finished_checkExpected
          split: prod.splits arg.splits)
  next
    case (Finish r)
    then show ?thesis by (simp add: effects_finish)
  next
    case (OnError e)
    then show ?thesis by (simp add: onError_def effects_finish)
  next
    case TimerFires
    then show ?thesis by (simp add: timerFires_def effects_finish split: option.splits)
  next
    case (SubtestFinished r p)
    then show ?thesis by (simp add: subtestFinished_def Let_def)
  qed simp_all
qed


lemma clientFinished_finish [simp]:
  "clientFinished (props (fst (finish r t))) = clientFinished (props t)"
  by (cases "finished (props t)") (simp_all add: finish_again props_error props_finish_first)

lemma clientFinished_checkExpected [simp]:
  "clientFinished (props (fst (checkExpected t))) = clientFinished (props t)"
  by (simp add: checkExpected_def)

lemma step_clientFinished [simp]:
  "clientFinished (props (fst (step ev t))) = clientFinished (props t)"
proof (cases "finished (props t)")
  case True
  then show ?thesis
    by (cases ev)
       (simp_all add: props_ping props_error props_comment check_def test_def addExpected_def
          onError_def timerFires_def subtestFinished_def Let_def split: option.splits)
next
  case False
  then show ?thesis
    by (cases ev)
       (simp_all add: props_ping props_error props_comment check_unfinished test_unfinished
          addExpected_def onError_def timerFires_def subtestFinished_def Let_def
          split: option.splits prod.splits arg.splits)
qed

lemma fst_exec_Cons: "fst (exec (ev # evs) t) = fst (exec evs (fst (step ev t)))"
  by (simp add: Let_def case_prod_beta)

lemma snd_exec_Cons: "snd (exec (ev # evs) t) = snd (step ev t) @ snd (exec evs (fst (step ev t)))"
  by (simp add: Let_def case_prod_beta)

declare exec.simps(2) [simp del]

lemma exec_resolved_quiet:
  "finished (props t) \<Longrightarrow> pending (props t) \<le> 0 \<Longrightarrow> calls (snd (exec evs t)) = []"
proof (induction evs arbitrary: t)
  case Nil
  then show ?case by simp
next
  case (Cons ev evs)
  have quiet: "calls (snd (step ev t)) = []"
    using step_effects_finished [OF Cons.prems(1), of ev] Cons.prems(2)
    by (cases ev) simp_all
  have "finished (props (fst (step ev t)))" "pending (props (fst (step ev t))) \<le> 0"
    using step_pending_finished [OF Cons.prems(1), of ev] Cons.prems(2)
    by (cases ev; simp)+
  then have "calls (snd (exec evs (fst (step ev t)))) = []"
    by (rule Cons.IH)
  with quiet show ?case
    by (simp add: snd_exec_Cons)
qed

lemma exec_calls_le1: "length (calls (snd (exec evs t))) \<le> 1"
proof (induction evs arbitrary: t)
  case Nil
  then show ?case by simp
next
  case (Cons ev evs)
  from step_calls [of ev t] show ?case
  proof
    assume "calls (snd (step ev t)) = []"
    with Cons.IH [of "fst (step ev t)"] show ?thesis
      by (simp add: snd_exec_Cons)
  next
    assume fired: "calls (snd (step ev t)) = notifyFinish (fst (step ev t)) \<and>
      finished (props (fst (step ev t))) \<and> pending (props (fst (step ev t))) = 0"
    then have "calls (snd (exec evs (fst (step ev t)))) = []"
      by (simp add: exec_resolved_quiet)
    with fired length_notifyFinish [of "fst (step ev t)"] show ?thesis
      by (simp add: snd_exec_Cons)
  qed
qed

lemma exec_deferred:
  "finished (props t) \<Longrightarrow> 0 < pending (props t) \<Longrightarrow>
   (int (resolutions evs) < pending (props t) \<longrightarrow> calls (snd (exec evs t)) = []) \<and>
   (pending (props t) \<le> int (resolutions evs) \<longrightarrow>
      (\<forall>f. clientFinished (props t) = Function f \<longrightarrow> length (calls (snd (exec evs t))) = 1))"
proof (induction evs arbitrary: t)
  case Nil
  then show ?case by (simp add: resolutions_def)
next
  case (Cons ev evs)
  let ?t1 = "fst (step ev t)"
  note fin = step_pending_finished [OF Cons.prems(1), of ev]
  note eff = step_effects_finished [OF Cons.prems(1), of ev]
  show ?case
  proof (cases "is_resolution ev")
    case False
    then have same: "pending (props ?t1) = pending (props t)" "calls (snd (step ev t)) = []"
      "resolutions (ev # evs) = resolutions evs"
      using fin eff by (cases ev; simp add: resolutions_def)+
    from Cons.IH [of ?t1] fin same Cons.prems show ?thesis
      by (simp add: snd_exec_Cons)
  next
    case True
    then obtain r p where ev: "ev = SubtestFinished r p" by (cases ev) simp_all
    have count: "resolutions (ev # evs) = Suc (resolutions evs)"
      by (simp add: ev resolutions_def)
    show ?thesis
    proof (cases "pending (props t) = 1")
      case last: True
      have quiet: "calls (snd (exec evs ?t1)) = []"
        using fin last by (simp add: ev exec_resolved_quiet)
      have "calls (snd (step ev t)) = notifyFinish ?t1"
        using eff last by (simp add: ev)
      with quiet last count show ?thesis
        by (auto simp add: snd_exec_Cons notifyFinish_def)
    next
      case False
      with Cons.prems have more: "0 < pending (props ?t1)" "finished (props ?t1)"
        "pending (props ?t1) = pending (props t) - 1" "calls (snd (step ev t)) = []"
        using fin eff by (simp_all add: ev)
      from Cons.IH [OF more(2) more(1)] more count show ?thesis
        by (simp add: snd_exec_Cons)
    qed
  qed
qed

section \<open>The completion callback\<close>

text \<open>
  Claim C1. In every run of a test, from any state and under any sequence of method
  calls, timer firings, domain errors and subtest resolutions, the completion callback
  is called at most once. A step that calls it leaves the test with \<open>finished\<close> true and
  \<open>pending\<close> zero (the call is the last thing the step does). \<open>finish\<close> on an unfinished
  test with pending subtests calls nothing; from then on nothing is called while fewer
  subtests have resolved than were pending, and once that many have resolved the callback
  (when it is a function) has been called exactly once.
\<close>

theorem completion_callback_at_most_once:
  "length (calls (snd (exec evs t))) \<le> 1 \<and>
   (calls (snd (step ev t)) \<noteq> [] \<longrightarrow>
      finished (props (fst (step ev t))) \<and> pending (props (fst (step ev t))) = 0) \<and>
   (\<not> finished (props t) \<and> pending (props t) \<noteq> 0 \<longrightarrow>
      snd (finish r t) = [] \<and> finished (props (fst (finish r t))) \<and>
      pending (props (fst (finish r t))) = pending (props t)) \<and>
   (finished (props t) \<and> 0 < pending (props t) \<and> int (resolutions evs) < pending (props t) \<longrightarrow>
      calls (snd (exec evs t)) = []) \<and>
   (finished (props t) \<and> 0 < pending (props t) \<and> pending (props t) \<le> int (resolutions evs) \<and>
    is_function (clientFinished (props t)) \<longrightarrow>
      length (calls (snd (exec evs t))) = 1)"
proof -
  have once: "length (calls (snd (exec evs t))) \<le> 1"
    by (rule exec_calls_le1)
  have point: "calls (snd (step ev t)) \<noteq> [] \<longrightarrow>
      finished (props (fst (step ev t))) \<and> pending (props (fst (step ev t))) = 0"
    using step_calls [of ev t] by blast
  have deferred: "\<not> finished (props t) \<and> pending (props t) \<noteq> 0 \<longrightarrow>
      snd (finish r t) = [] \<and> finished (props (fst (finish r t))) \<and>
      pending (props (fst (finish r t))) = pending (props t)"
    by (simp add: effects_finish)
  have waits: "finished (props t) \<and> 0 < pending (props t) \<and>
      int (resolutions evs) < pending (props t) \<longrightarrow> calls (snd (exec evs t)) = []"
    using exec_deferred [of t evs] by blast
  have fires: "finished (props t) \<and> 0 < pending (props t) \<and>
      pending (props t) \<le> int (resolutions evs) \<and> is_function (clientFinished (props t)) \<longrightarrow>
      length (calls (snd (exec evs t))) = 1"
  proof (intro impI, elim conjE)
    assume a: "finished (props t)" "0 < pending (props t)"
      "pending (props t) \<le> int (resolutions evs)" "is_function (clientFinished (props t))"
    from a(4) obtain f where "clientFinished (props t) = Function f"
      by (cases "clientFinished (props t)") simp_all
    with exec_deferred [OF a(1) a(2), of evs] a(3) show "length (calls (snd (exec evs t))) = 1"
      by blast
  qed
  from once point deferred waits fires show ?thesis
    by blast
qed

theorem completion_callback_at_most_once_witness:
  "(\<not> finished (props example_waiting) \<and> pending (props example_waiting) \<noteq> 0 \<and>
    snd (finish JUndefined example_waiting) = []) \<and>
   (finished (props example_deferred) \<and> 0 < pending (props example_deferred) \<and>
    int (resolutions [Comment (JStr ''x'')]) < pending (props example_deferred) \<and>
    calls (snd (exec [Comment (JStr ''x'')] example_deferred)) = []) \<and>
   (pending (props example_deferred)
      \<le> int (resolutions [Comment (JStr ''x''), SubtestFinished JNull True]) \<and>
    is_function (clientFinished (props example_deferred)) \<and>
    length (calls (snd (exec [Comment (JStr ''x''), SubtestFinished JNull True]
      example_deferred))) = 1) \<and>
   (calls (snd (step (SubtestFinished JNull True) example_deferred)) \<noteq> [] \<and>
    finished (props (fst (step (SubtestFinished JNull True) example_deferred))) \<and>
    pending (props (fst (step (SubtestFinished JNull True) example_deferred))) = 0)"
proof -
  have waiting: "\<not> finished (props example_waiting) \<and> pending (props example_waiting) \<noteq> 0"
    by code_simp
  have pending1: "finished (props example_deferred) \<and> 0 < pending (props example_deferred)"
    by code_simp
  have fewer: "int (resolutions [Comment (JStr ''x'')]) < pending (props example_deferred)"
    by code_simp
  have enough: "pending (props example_deferred)
      \<le> int (resolutions [Comment (JStr ''x''), SubtestFinished JNull True]) \<and>
    is_function (clientFinished (props example_deferred))"
    by code_simp
  have called: "calls (snd (step (SubtestFinished JNull True) example_deferred)) \<noteq> []"
    by code_simp
  note at_waiting =
    completion_callback_at_most_once [of "[]" example_waiting Ping JUndefined]
  note at_comment =
    completion_callback_at_most_once [of "[Comment (JStr ''x'')]" example_deferred Ping JUndefined]
  note at_resolution =
    completion_callback_at_most_once
      [of "[Comment (JStr ''x''), SubtestFinished JNull True]" example_deferred
          "SubtestFinished JNull True" JUndefined]
  from waiting at_waiting have "snd (finish JUndefined example_waiting) = []"
    by blast
  moreover from pending1 fewer at_comment
  have "calls (snd (exec [Comment (JStr ''x'')] example_deferred)) = []"
    by blast
  moreover from pending1 enough at_resolution
  have "length (calls (snd (exec [Comment (JStr ''x''), SubtestFinished JNull True]
      example_deferred))) = 1"
    by blast
  moreover from called at_resolution
  have "finished (props (fst (step (SubtestFinished JNull True) example_deferred))) \<and>
    pending (props (fst (step (SubtestFinished JNull True) example_deferred))) = 0"
    by blast
  ultimately show ?thesis
    using waiting pending1 fewer enough called by blast
qed

section \<open>Reaching the expected count\<close>

lemma checkExpected_eq:
  "checkExpected t =
     (if expected (props t) = Some (total (props t)) then finish JUndefined t else (t, []))"
  by (auto simp add: checkExpected_def)

lemma contents_finish_first:
  "\<not> finished (props t) \<Longrightarrow>
   contents (fst (finish r t)) =
     contents t @
     (if \<not> truthy r then []
      else if r = JStr ''bail'' then
        [Annotation ''error'' (JStr ''Test bailed due to an uncaught exception.'')]
      else if r = JStr ''timeout'' then
        [Annotation ''error'' (JStr (''Test timed out due to no activity in '' @
           show_int (timeout (props t)) @ '' milliseconds.''))]
      else
        [Annotation ''error'' (JStr (''Test finished abnormally, reason given was '' @
           quoted (toString r)))])"
  by (simp add: finish_def Let_def props_ping)

lemma props_finish_normally:
  "\<not> finished (props t) \<Longrightarrow>
   props (fst (finish JUndefined t)) =
     (props t)\<lparr>finished := True, finishReason := JUndefined, timer := None\<rparr>"
  by (simp add: props_finish_first)

text \<open>
  Claim C3. On an unfinished test whose \<open>expected\<close> is a number, a \<open>check\<close> or a
  \<open>test\<close> call that brings \<open>total\<close> to exactly \<open>expected\<close> finishes the test, with
  no call of \<open>finish\<close> by the caller. The comparison is with \<open>total\<close>: \<open>test\<close>
  counts the subtest before it has passed or failed. The finish is \<open>this.finish()\<close>, so
  \<open>finishReason\<close> is \<open>undefined\<close>: it is \<open>== null\<close> and falsy, a normal finish.
\<close>

theorem reaching_expected_finishes:
  assumes "\<not> finished (props t)" and "expected (props t) = Some e"
    and "total (props t) + 1 = e"
  shows "(let t' = fst (snd (check result nm t))
          in finished (props t') \<and> total (props t') = e \<and>
             finishReason (props t') = JUndefined \<and> loosely_null (finishReason (props t')) \<and>
             \<not> truthy (finishReason (props t'))) \<and>
         (let t' = fst (snd (test nm tmo body t))
          in finished (props t') \<and> total (props t') = e \<and>
             finishReason (props t') = JUndefined \<and> loosely_null (finishReason (props t')) \<and>
             \<not> truthy (finishReason (props t')))"
proof -
  obtain err b where ev: "evaluate result = (err, b)"
    by (cases "evaluate result")
  let ?counted = "modify (\<lambda>p. p\<lparr>total := total p + 1\<rparr>)
    (modify (\<lambda>p. if b then p\<lparr>passed := passed p + 1\<rparr> else p\<lparr>failed := failed p + 1\<rparr>)
      (push (Checkpoint nm b) (ping t)))"
  let ?noted = "if truthy err then error err ?counted else ?counted"
  have reached: "expected (props ?noted) = Some (total (props ?noted))"
    "\<not> finished (props ?noted)" "total (props ?noted) = e"
    using assms by (simp_all add: props_ping props_error)
  have check_eq: "fst (snd (check result nm t)) = fst (finish JUndefined ?noted)"
    using assms(1) reached(1) by (simp add: check_unfinished ev Let_def checkExpected_eq)
  have checked: "props (fst (snd (check result nm t))) =
      (props ?noted)\<lparr>finished := True, finishReason := JUndefined, timer := None\<rparr>"
    by (simp only: check_eq props_finish_normally [OF reached(2)])
  let ?started = "modify (\<lambda>p. p\<lparr>total := total p + 1\<rparr>)
    (modify (\<lambda>p. p\<lparr>pending := pending p + 1\<rparr>)
      (push (Subtest (Test nm (fst (overload tmo body)) (Function BoundSubtestFinished))) (ping t)))"
  have reached': "expected (props ?started) = Some (total (props ?started))"
    "\<not> finished (props ?started)" "total (props ?started) = e"
    using assms by (simp_all add: props_ping)
  have test_eq: "fst (snd (test nm tmo body t)) = fst (finish JUndefined ?started)"
    using assms(1) reached'(1)
    by (simp add: test_unfinished Let_def checkExpected_eq split: arg.splits)
  have started: "props (fst (snd (test nm tmo body t))) =
      (props ?started)\<lparr>finished := True, finishReason := JUndefined, timer := None\<rparr>"
    by (simp only: test_eq props_finish_normally [OF reached'(2)])
  show ?thesis
    unfolding Let_def checked started using reached(3) reached'(3) by simp
qed


theorem reaching_expected_finishes_witness:
  "(\<not> finished (props (addExpected 1 example_root)) \<and>
    expected (props (addExpected 1 example_root)) = Some 1 \<and>
    total (props (addExpected 1 example_root)) + 1 = 1) \<and>
   finished (props (fst (snd (check (Value (JBool True)) ''a'' (addExpected 1 example_root))))) \<and>
   finishReason (props (fst (snd (check (Value (JBool True)) ''a'' (addExpected 1 example_root)))))
     = JUndefined \<and>
   finished (props (fst (snd (test ''sub'' Undefined Undefined (addExpected 1 example_root))))) \<and>
   finishReason (props (fst (snd (test ''sub'' Undefined Undefined (addExpected 1 example_root)))))
     = JUndefined"
proof -
  have unfinished: "\<not> finished (props (addExpected 1 example_root))"
    by code_simp
  have hint: "expected (props (addExpected 1 example_root)) = Some 1"
    by code_simp
  have one_short: "total (props (addExpected 1 example_root)) + 1 = 1"
    by code_simp
  note by_check = reaching_expected_finishes
    [where result = "Value (JBool True)" and nm = "''a''" and tmo = Undefined
       and body = Undefined, OF unfinished hint one_short]
  note by_test = reaching_expected_finishes
    [where result = "Value (JBool True)" and nm = "''sub''" and tmo = Undefined
       and body = Undefined, OF unfinished hint one_short]
  from by_check by_test show ?thesis
    using unfinished hint one_short by (simp add: Let_def)
qed

section \<open>Subtests\<close>

text \<open>
  Claim C4. \<open>test\<close> on an unfinished parent appends the new subtest to the parent's
  \<open>contents\<close> and adds one to \<open>total\<close> and to \<open>pending\<close> at once, while the subtest
  is still unfinished and \<open>passed\<close> and \<open>failed\<close> are as they were. When the subtest
  resolves with \<open>(reason, passed)\<close>, the parent's \<open>_subtestFinished\<close> adds one to
  \<open>passed\<close> if \<open>reason\<close> is falsy and the flag is true, to \<open>failed\<close> otherwise, takes
  one from \<open>pending\<close> in either case and leaves \<open>total\<close> and \<open>contents\<close> alone.
\<close>

theorem subtest_started_then_resolved:
  "(\<not> finished (props t) \<longrightarrow>
      contents (fst (snd (test nm tmo body t))) =
        contents t @ [Subtest (Test nm (fst (overload tmo body)) (Function BoundSubtestFinished))] \<and>
      total (props (fst (snd (test nm tmo body t)))) = total (props t) + 1 \<and>
      pending (props (fst (snd (test nm tmo body t)))) = pending (props t) + 1 \<and>
      passed (props (fst (snd (test nm tmo body t)))) = passed (props t) \<and>
      failed (props (fst (snd (test nm tmo body t)))) = failed (props t) \<and>
      \<not> finished (props (Test nm (fst (overload tmo body)) (Function BoundSubtestFinished)))) \<and>
   passed (props (fst (subtestFinished reason psd t))) =
     (if \<not> truthy reason \<and> psd then passed (props t) + 1 else passed (props t)) \<and>
   failed (props (fst (subtestFinished reason psd t))) =
     (if \<not> truthy reason \<and> psd then failed (props t) else failed (props t) + 1) \<and>
   pending (props (fst (subtestFinished reason psd t))) = pending (props t) - 1 \<and>
   total (props (fst (subtestFinished reason psd t))) = total (props t) \<and>
   contents (fst (subtestFinished reason psd t)) = contents t"
proof -
  let ?child = "Test nm (fst (overload tmo body)) (Function BoundSubtestFinished)"
  let ?started = "modify (\<lambda>p. p\<lparr>total := total p + 1\<rparr>)
    (modify (\<lambda>p. p\<lparr>pending := pending p + 1\<rparr>) (push (Subtest ?child) (ping t)))"
  have fresh: "\<not> finished (props ?child)"
    by (simp add: Test_def props_ping split: prod.splits)
  have started: "fst (snd (test nm tmo body t)) = fst (checkExpected ?started)"
    if "\<not> finished (props t)"
    using that by (simp add: test_unfinished Let_def split: arg.splits)
  have kept: "contents (fst (checkExpected ?started)) = contents ?started"
    "total (props (fst (checkExpected ?started))) = total (props ?started)"
    "pending (props (fst (checkExpected ?started))) = pending (props ?started)"
    "passed (props (fst (checkExpected ?started))) = passed (props ?started)"
    "failed (props (fst (checkExpected ?started))) = failed (props ?started)"
    if "\<not> finished (props t)"
    using that
    by (simp_all add: checkExpected_eq props_finish_normally contents_finish_first props_ping)
  have creation: "\<not> finished (props t) \<longrightarrow>
      contents (fst (snd (test nm tmo body t))) = contents t @ [Subtest ?child] \<and>
      total (props (fst (snd (test nm tmo body t)))) = total (props t) + 1 \<and>
      pending (props (fst (snd (test nm tmo body t)))) = pending (props t) + 1 \<and>
      passed (props (fst (snd (test nm tmo body t)))) = passed (props t) \<and>
      failed (props (fst (snd (test nm tmo body t)))) = failed (props t)"
    by (simp add: started kept props_ping)
  have resolution:
    "passed (props (fst (subtestFinished reason psd t))) =
       (if \<not> truthy reason \<and> psd then passed (props t) + 1 else passed (props t))"
    "failed (props (fst (subtestFinished reason psd t))) =
       (if \<not> truthy reason \<and> psd then failed (props t) else failed (props t) + 1)"
    "pending (props (fst (subtestFinished reason psd t))) = pending (props t) - 1"
    "total (props (fst (subtestFinished reason psd t))) = total (props t)"
    "contents (fst (subtestFinished reason psd t)) = contents t"
    by (simp_all add: subtestFinished_def Let_def)
  from creation fresh resolution show ?thesis
    by simp
qed

theorem subtest_started_then_resolved_witness:
  "\<not> finished (props example_root) \<and>
   contents (fst (snd (test ''child'' Undefined Undefined example_root))) =
     contents example_root @ [Subtest (Test ''child'' Undefined (Function BoundSubtestFinished))] \<and>
   total (props (fst (snd (test ''child'' Undefined Undefined example_root)))) = 1 \<and>
   pending (props (fst (snd (test ''child'' Undefined Undefined example_root)))) = 1 \<and>
   passed (props (fst (subtestFinished JNull True example_waiting))) = 1 \<and>
   pending (props (fst (subtestFinished JNull True example_waiting))) = 0 \<and>
   total (props (fst (subtestFinished JNull True example_waiting))) = 1"
proof -
  have unfinished: "\<not> finished (props example_root)"
    by code_simp
  have before: "total (props example_root) = 0" "pending (props example_root) = 0"
    "fst (overload Undefined Undefined) = Undefined"
    by code_simp+
  have waiting: "passed (props example_waiting) = 0" "pending (props example_waiting) = 1"
    "total (props example_waiting) = 1"
    by code_simp+
  from subtest_started_then_resolved
    [of example_root "''child''" Undefined Undefined JNull True]
    subtest_started_then_resolved
    [of example_waiting "''child''" Undefined Undefined JNull True]
  show ?thesis
    using unfinished before waiting by simp
qed

section \<open>After the test is finished\<close>

lemma props_error_finished:
  "finished (props t) \<Longrightarrow>
   props (error d t) = (props t)\<lparr>errors := errors (props t) + 1, timer := None\<rparr>"
  by (simp add: props_error)

lemma error_finished:
  "finished (props t) \<Longrightarrow>
   error d t =
     TestObject ((props t)\<lparr>errors := errors (props t) + 1, timer := None\<rparr>)
       (contents t @ [Annotation ''error'' d])"
  by (rule test.expand) (simp add: props_error)

text \<open>
  Claim C5. Once \<open>finish\<close> has run (\<open>finished\<close> is true, and only \<open>finish\<close> sets it),
  another \<open>finish(reason)\<close> calls no callback and leaves \<open>finished\<close> and
  \<open>finishReason\<close> as they are. It goes through \<open>error\<close>: one error annotation that
  quotes the attempted reason is appended and \<open>errors\<close> grows by one; every other field
  is kept (the \<open>ping\<close> of \<open>error\<close> leaves a finished test with no timer).
\<close>

theorem second_finish_only_logs:
  assumes "finished (props t)"
  shows "snd (finish reason t) = [] \<and>
    finished (props (fst (finish reason t))) = finished (props t) \<and>
    finishReason (props (fst (finish reason t))) = finishReason (props t) \<and>
    errors (props (fst (finish reason t))) = errors (props t) + 1 \<and>
    contents (fst (finish reason t)) =
      contents t @
      [Annotation ''error''
         (JStr (''An extra attempt was made to finish the test, the reason this time was: '' @
                quoted (toString reason)))] \<and>
    props (fst (finish reason t)) = (props t)\<lparr>errors := errors (props t) + 1, timer := None\<rparr>"
  using assms by (simp add: finish_again props_error_finished)

theorem second_finish_only_logs_witness:
  "finished (props (fst (finish (JStr ''x'') example_root))) \<and>
   snd (finish (JStr ''x'') (fst (finish (JStr ''x'') example_root))) = [] \<and>
   finishReason (props (fst (finish (JStr ''x'') (fst (finish (JStr ''x'') example_root)))))
     = JStr ''x'' \<and>
   errors (props (fst (finish (JStr ''x'') (fst (finish (JStr ''x'') example_root))))) = 2"
proof -
  have first: "finished (props (fst (finish (JStr ''x'') example_root)))"
    by code_simp
  have before: "finishReason (props (fst (finish (JStr ''x'') example_root))) = JStr ''x''"
    "errors (props (fst (finish (JStr ''x'') example_root))) = 1"
    by code_simp+
  from second_finish_only_logs [OF first, of "JStr ''x''"] show ?thesis
    using first before by simp
qed

text \<open>
  Claim C8. On a finished test, \<open>check\<close>, \<open>test\<close> and \<open>addExpected\<close> change none of
  \<open>passed\<close>, \<open>failed\<close>, \<open>total\<close>, \<open>pending\<close> and \<open>expected\<close>. Each returns the test
  with one error annotation appended that describes the call (through \<open>error\<close>, which
  counts it in \<open>errors\<close> and pings), and calls no callback; \<open>check\<close> returns
  \<open>undefined\<close>, not a boolean, and \<open>test\<close> returns no subtest.
\<close>

theorem operations_after_finish_only_log:
  assumes "finished (props t)"
  shows "(let logged = (\<lambda>message.
             TestObject ((props t)\<lparr>errors := errors (props t) + 1, timer := None\<rparr>)
               (contents t @ [Annotation ''error'' (JStr message)]))
          in check result nm t =
               (JUndefined,
                logged (''Checkpoint '' @ quoted nm @ '' triggered after test was completed''),
                []) \<and>
             test nm tmo body t =
               (None,
                logged (''Subtest '' @ quoted nm @ '' triggered after test was completed''),
                []) \<and>
             addExpected count t =
               logged (''Expected test count increased by '' @ show_int count @
                       '' after completion.'') \<and>
             (\<forall>message.
                passed (props (logged message)) = passed (props t) \<and>
                failed (props (logged message)) = failed (props t) \<and>
                total (props (logged message)) = total (props t) \<and>
                pending (props (logged message)) = pending (props t) \<and>
                expected (props (logged message)) = expected (props t)))"
  using assms
  by (simp add: check_def test_def addExpected_def error_finished Let_def split: prod.splits)

theorem operations_after_finish_only_log_witness:
  "finished (props example_deferred) \<and>
   fst (check (Value (JBool True)) ''late'' example_deferred) = JUndefined \<and>
   fst (test ''late'' Undefined Undefined example_deferred) = None \<and>
   total (props (fst (snd (check (Value (JBool True)) ''late'' example_deferred)))) =
     total (props example_deferred) \<and>
   expected (props (addExpected 3 example_deferred)) = expected (props example_deferred)"
proof -
  have over: "finished (props example_deferred)"
    by code_simp
  from operations_after_finish_only_log
    [OF over, of "Value (JBool True)" "''late''" Undefined Undefined 3]
  show ?thesis
    using over by (simp add: Let_def)
qed

section \<open>The expected count and the optional timeout\<close>

lemma timeout_Test:
  "timeout (props (Test nm tmo cb)) = timeout_or_default (fst (overload tmo cb))"
  by (simp add: Test_def props_ping split: prod.splits)

lemma clientFinished_Test:
  "clientFinished (props (Test nm tmo cb)) = snd (overload tmo cb)"
  by (simp add: Test_def props_ping split: prod.splits)

lemma contents_checkExpected:
  "\<not> finished (props t) \<Longrightarrow> contents (fst (checkExpected t)) = contents t"
  by (simp add: checkExpected_eq contents_finish_first)

lemma contents_test_unfinished:
  "\<not> finished (props t) \<Longrightarrow>
   contents (fst (snd (test nm tmo body t))) =
     contents t @ [Subtest (Test nm (fst (overload tmo body)) (Function BoundSubtestFinished))]"
  by (simp add: test_unfinished Let_def contents_checkExpected props_ping split: arg.splits)

text \<open>
  Claim C2, as stated, fails: \<open>addExpected\<close> never compares \<open>expected\<close> with
  \<open>total\<close>. On a new test \<open>addExpected(0)\<close> makes \<open>expected\<close> equal to \<open>total\<close>, and
  the test stays unfinished.
\<close>

theorem addExpected_reevaluates_counterexample:
  "\<not> finished (props (Test ''t'' (Number 0) Undefined)) \<and>
   expected (props (addExpected 0 (Test ''t'' (Number 0) Undefined))) =
     Some (total (props (addExpected 0 (Test ''t'' (Number 0) Undefined)))) \<and>
   \<not> finished (props (addExpected 0 (Test ''t'' (Number 0) Undefined)))"
  by code_simp

text \<open>
  Claim C2, amended. On an unfinished test \<open>addExpected(count)\<close> pings, then sets
  \<open>expected\<close> to \<open>count\<close> if it was \<open>null\<close> and adds \<open>count\<close> to it otherwise, and
  does nothing else: no other field and no entry of \<open>contents\<close> changes, no callback is
  called and the test stays unfinished, also when the new \<open>expected\<close> equals \<open>total\<close>.
  The comparison is made by \<open>check\<close> and \<open>test\<close> after they have counted: the next
  \<open>check\<close>, and likewise the next \<open>test\<close>, finishes the test exactly when the new
  \<open>expected\<close> is \<open>total + 1\<close>.
\<close>

theorem addExpected_only_updates_expected:
  assumes "\<not> finished (props t)"
  shows "props (addExpected count t) =
      (props t)\<lparr>expected := Some (case expected (props t) of None \<Rightarrow> count | Some e \<Rightarrow> e + count),
                timer := (if 0 < timeout (props t) then Some (timeout (props t)) else None)\<rparr> \<and>
    contents (addExpected count t) = contents t \<and>
    \<not> finished (props (addExpected count t)) \<and>
    step (AddExpected count) t = (addExpected count t, []) \<and>
    finished (props (fst (snd (check result nm (addExpected count t))))) =
      (expected (props (addExpected count t)) = Some (total (props t) + 1)) \<and>
    finished (props (fst (snd (test sub tmo body (addExpected count t))))) =
      (expected (props (addExpected count t)) = Some (total (props t) + 1))"
proof -
  let ?t' = "addExpected count t"
  have fields: "props ?t' =
      (props t)\<lparr>expected := Some (case expected (props t) of None \<Rightarrow> count | Some e \<Rightarrow> e + count),
                timer := (if 0 < timeout (props t) then Some (timeout (props t)) else None)\<rparr>"
    using assms by (cases "expected (props t)") (simp_all add: addExpected_def Let_def props_ping)
  have log: "contents ?t' = contents t"
    using assms by (simp add: addExpected_def Let_def)
  have unfinished: "\<not> finished (props ?t')"
    using assms by (simp add: fields)
  obtain err b where ev: "evaluate result = (err, b)"
    by (cases "evaluate result")
  have next_check: "finished (props (fst (snd (check result nm ?t')))) =
      (expected (props ?t') = Some (total (props t) + 1))"
    using unfinished
    by (simp add: check_unfinished [OF unfinished] ev Let_def finished_checkExpected
        props_ping props_error fields)
  have next_test: "finished (props (fst (snd (test sub tmo body ?t')))) =
      (expected (props ?t') = Some (total (props t) + 1))"
    using unfinished
    by (simp add: test_unfinished [OF unfinished] Let_def finished_checkExpected
        props_ping fields split: arg.splits)
  from fields log unfinished next_check next_test show ?thesis
    by simp
qed

theorem addExpected_only_updates_expected_witness:
  "\<not> finished (props example_waiting) \<and>
   expected (props (addExpected 1 example_waiting)) = Some 1 \<and>
   total (props (addExpected 1 example_waiting)) = 1 \<and>
   \<not> finished (props (addExpected 1 example_waiting)) \<and>
   \<not> finished (props (fst (snd (check (Value (JBool True)) ''a'' (addExpected 1 example_waiting))))) \<and>
   \<not> finished (props (fst (snd (test ''b'' Undefined Undefined (addExpected 1 example_waiting))))) \<and>
   expected (props (addExpected 2 example_waiting)) = Some 2 \<and>
   finished (props (fst (snd (check (Value (JBool True)) ''a'' (addExpected 2 example_waiting))))) \<and>
   finished (props (fst (snd (test ''b'' Undefined Undefined (addExpected 2 example_waiting)))))"
proof -
  have unfinished: "\<not> finished (props example_waiting)"
    by code_simp
  have before: "expected (props example_waiting) = None" "total (props example_waiting) = 1"
    by code_simp+
  note equal_now = addExpected_only_updates_expected
    [where count = 1 and result = "Value (JBool True)" and nm = "''a''" and sub = "''b''"
       and tmo = Undefined and body = Undefined, OF unfinished]
  note one_short = addExpected_only_updates_expected
    [where count = 2 and result = "Value (JBool True)" and nm = "''a''" and sub = "''b''"
       and tmo = Undefined and body = Undefined, OF unfinished]
  from equal_now one_short show ?thesis
    using unfinished before by simp
qed

text \<open>
  Claim C6, as stated, fails: a subtest does not take its parent's timeout. Under a
  parent with a timeout of 100 milliseconds, a subtest created with no timeout has 5000.
\<close>

theorem subtest_timeout_counterexample:
  "\<not> finished (props (Test ''parent'' (Number 100) Undefined)) \<and>
   fst (test ''child'' Undefined Undefined (Test ''parent'' (Number 100) Undefined)) =
     Some (Test ''child'' Undefined (Function BoundSubtestFinished)) \<and>
   timeout (props (Test ''child'' Undefined (Function BoundSubtestFinished))) = 5000 \<and>
   timeout (props (Test ''parent'' (Number 100) Undefined)) = 100"
  by code_simp

text \<open>
  Claim C6, amended. \<open>test\<close> with the timeout omitted hands \<open>undefined\<close> to the
  constructor, so the subtest it appends (and returns, when there is no body) has the
  module's \<open>DEFAULT_TIMEOUT\<close> of 5000 milliseconds, whatever the parent's timeout is.
\<close>

theorem subtest_default_timeout:
  assumes "\<not> finished (props t)"
  shows "contents (fst (snd (test nm Undefined body t))) =
      contents t @ [Subtest (Test nm Undefined (Function BoundSubtestFinished))] \<and>
    timeout (props (Test nm Undefined (Function BoundSubtestFinished))) = 5000 \<and>
    (\<not> is_function body \<longrightarrow>
       fst (test nm Undefined body t) = Some (Test nm Undefined (Function BoundSubtestFinished)))"
proof -
  have omitted: "overload Undefined body = (Undefined, body)"
    by (simp add: overload_def)
  have "contents (fst (snd (test nm Undefined body t))) =
      contents t @ [Subtest (Test nm Undefined (Function BoundSubtestFinished))]"
    using contents_test_unfinished [OF assms, of nm Undefined body] by (simp add: omitted)
  moreover have "timeout (props (Test nm Undefined (Function BoundSubtestFinished))) = 5000"
    by (simp add: timeout_Test overload_def DEFAULT_TIMEOUT_def)
  moreover have "\<not> is_function body \<longrightarrow>
      fst (test nm Undefined body t) = Some (Test nm Undefined (Function BoundSubtestFinished))"
    using assms by (cases body) (simp_all add: test_unfinished overload_def Let_def)
  ultimately show ?thesis
    by simp
qed

theorem subtest_default_timeout_witness:
  "\<not> finished (props (Test ''parent'' (Number 100) Undefined)) \<and>
   \<not> is_function Undefined \<and>
   contents (fst (snd (test ''child'' Undefined Undefined (Test ''parent'' (Number 100) Undefined))))
     = [Subtest (Test ''child'' Undefined (Function BoundSubtestFinished))] \<and>
   timeout (props (Test ''child'' Undefined (Function BoundSubtestFinished))) = 5000 \<and>
   fst (test ''child'' Undefined Undefined (Test ''parent'' (Number 100) Undefined)) =
     Some (Test ''child'' Undefined (Function BoundSubtestFinished))"
proof -
  have unfinished: "\<not> finished (props (Test ''parent'' (Number 100) Undefined))"
    by code_simp
  have empty: "contents (Test ''parent'' (Number 100) Undefined) = []"
    by code_simp
  from subtest_default_timeout [OF unfinished, of "''child''" Undefined]
  show ?thesis
    using unfinished empty by simp
qed

text \<open>
  Claim C10. A function in the \<open>timeout\<close> position is taken for the callback of the
  constructor and for the body of \<open>test\<close>, and the timeout for omitted: the constructor
  then stores the function as \<open>_clientFinished\<close> and falls back to 5000 milliseconds,
  whatever stood in the third position; \<open>test\<close> then behaves as with the function in
  the third position, so on an unfinished parent the subtest gets the default timeout,
  the function is scheduled by \<open>run\<close> and nothing is returned.
\<close>

theorem function_in_timeout_position:
  "Test nm (Function f) cb = Test nm Undefined (Function f) \<and>
   clientFinished (props (Test nm (Function f) cb)) = Function f \<and>
   timeout (props (Test nm (Function f) cb)) = 5000 \<and>
   test nm (Function b) body t = test nm Undefined (Function b) t \<and>
   (\<not> finished (props t) \<longrightarrow>
      fst (test nm (Function b) body t) = None \<and>
      contents (fst (snd (test nm (Function b) body t))) =
        contents t @ [Subtest (Test nm Undefined (Function BoundSubtestFinished))] \<and>
      timeout (props (Test nm Undefined (Function BoundSubtestFinished))) = 5000 \<and>
      NextTick b \<in> set (snd (snd (test nm (Function b) body t))))"
proof -
  have swapped: "overload (Function f) cb = (Undefined, Function f)"
    "overload (Function b) body = (Undefined, Function b)"
    "overload Undefined (Function f) = (Undefined, Function f)"
    "overload Undefined (Function b) = (Undefined, Function b)"
    by (simp_all add: overload_def)
  have constructor: "Test nm (Function f) cb = Test nm Undefined (Function f)"
    by (simp add: Test_def swapped)
  have callback: "clientFinished (props (Test nm (Function f) cb)) = Function f"
    by (simp add: clientFinished_Test swapped)
  have default: "timeout (props (Test nm (Function f) cb)) = 5000"
    "timeout (props (Test nm Undefined (Function BoundSubtestFinished))) = 5000"
    by (simp_all add: timeout_Test swapped overload_def DEFAULT_TIMEOUT_def)
  have as_body: "test nm (Function b) body t = test nm Undefined (Function b) t"
    by (simp add: test_def swapped)
  have scheduled: "fst (test nm (Function b) body t) = None \<and>
      contents (fst (snd (test nm (Function b) body t))) =
        contents t @ [Subtest (Test nm Undefined (Function BoundSubtestFinished))] \<and>
      NextTick b \<in> set (snd (snd (test nm (Function b) body t)))"
    if unfinished: "\<not> finished (props t)"
    using contents_test_unfinished [OF unfinished, of nm "Function b" body] unfinished
    by (simp add: test_unfinished swapped Let_def run_def)
  from constructor callback default as_body scheduled show ?thesis
    by simp
qed

theorem function_in_timeout_position_witness:
  "\<not> finished (props example_root) \<and>
   Test ''root'' (Function (UserFunction 0)) Undefined =
     Test ''root'' Undefined (Function (UserFunction 0)) \<and>
   timeout (props (Test ''root'' (Function (UserFunction 0)) Undefined)) = 5000 \<and>
   fst (test ''child'' (Function (UserFunction 1)) Undefined example_root) = None \<and>
   NextTick (UserFunction 1)
     \<in> set (snd (snd (test ''child'' (Function (UserFunction 1)) Undefined example_root)))"
proof -
  have unfinished: "\<not> finished (props example_root)"
    by code_simp
  from function_in_timeout_position
    [where nm = "''root''" and f = "UserFunction 0" and cb = Undefined
       and b = "UserFunction 1" and body = Undefined and t = example_root]
  have "Test ''root'' (Function (UserFunction 0)) Undefined =
      Test ''root'' Undefined (Function (UserFunction 0))"
    and "timeout (props (Test ''root'' (Function (UserFunction 0)) Undefined)) = 5000"
    by blast+
  moreover from function_in_timeout_position
    [where nm = "''child''" and f = "UserFunction 0" and cb = Undefined
       and b = "UserFunction 1" and body = Undefined and t = example_root]
    unfinished
  have "fst (test ''child'' (Function (UserFunction 1)) Undefined example_root) = None"
    and "NextTick (UserFunction 1)
      \<in> set (snd (snd (test ''child'' (Function (UserFunction 1)) Undefined example_root)))"
    by blast+
  ultimately show ?thesis
    using unfinished by blast
qed

section \<open>The liveness timer\<close>

lemma timer_finish [simp]: "timer (props (fst (finish r t))) = None"
  by (cases "finished (props t)") (simp_all add: finish_again props_error props_finish_first)

lemma timeout_finish [simp]: "timeout (props (fst (finish r t))) = timeout (props t)"
  by (cases "finished (props t)") (simp_all add: finish_again props_error props_finish_first)

lemma timeout_step: "timeout (props (fst (step ev t))) = timeout (props t)"
proof (cases "finished (props t)")
  case True
  then show ?thesis
    by (cases ev)
       (simp_all add: props_ping props_error props_comment check_def test_def addExpected_def
          onError_def timerFires_def subtestFinished_def Let_def split: option.splits)
next
  case False
  then show ?thesis
    by (cases ev)
       (simp_all add: props_ping props_error props_comment check_unfinished test_unfinished
          addExpected_def onError_def timerFires_def subtestFinished_def Let_def
          checkExpected_eq split: option.splits prod.splits arg.splits)
qed

lemma timer_step:
  assumes "timer (props t) \<noteq> None \<longrightarrow> \<not> finished (props t) \<and> 0 < timeout (props t)"
  shows "timer (props (fst (step ev t))) \<noteq> None \<longrightarrow>
    \<not> finished (props (fst (step ev t))) \<and> 0 < timeout (props (fst (step ev t)))"
proof (cases "finished (props t)")
  case True
  with assms have "timer (props t) = None"
    by blast
  with True show ?thesis
    by (cases ev)
       (simp_all add: props_ping props_error props_comment check_def test_def addExpected_def
          onError_def timerFires_def subtestFinished_def Let_def split: option.splits)
next
  case False
  with assms show ?thesis
    by (cases ev)
       (auto simp add: props_ping props_error props_comment check_unfinished test_unfinished
          addExpected_def onError_def timerFires_def subtestFinished_def Let_def
          checkExpected_eq split: option.splits prod.splits arg.splits if_splits)
qed

lemma timer_Test:
  "timer (props (Test nm tmo cb)) \<noteq> None \<longrightarrow>
   \<not> finished (props (Test nm tmo cb)) \<and> 0 < timeout (props (Test nm tmo cb))"
  by (simp add: Test_def props_ping split: prod.splits)

lemma exec_timer:
  "timer (props t) \<noteq> None \<longrightarrow> \<not> finished (props t) \<and> 0 < timeout (props t) \<Longrightarrow>
   timeout (props (fst (exec evs t))) = timeout (props t) \<and>
   (timer (props (fst (exec evs t))) \<noteq> None \<longrightarrow>
      \<not> finished (props (fst (exec evs t))) \<and> 0 < timeout (props (fst (exec evs t))))"
proof (induction evs arbitrary: t)
  case Nil
  then show ?case by simp
next
  case (Cons ev evs)
  from Cons.IH [OF timer_step [OF Cons.prems, of ev]] show ?case
    by (auto simp add: fst_exec_Cons timeout_step)
qed

lemma ping_forgets: "ping (modify (\<lambda>p. p\<lparr>timer := previous\<rparr>) t) = ping t"
  by (rule test.expand) (simp add: props_ping)

text \<open>
  Claim C9. \<open>ping\<close> changes \<open>_timer\<close> only, and what it leaves does not depend on
  the timer that was scheduled before (that one is cancelled): a timer of \<open>timeout\<close>
  milliseconds when the test is unfinished and \<open>timeout\<close> is positive, none otherwise.
  When the timer of an unfinished test fires, it is \<open>finish("timeout")\<close>: the test is
  finished with that reason, no timer is left, and the error annotation appended names the
  configured timeout. In every state a test reaches from its constructor, \<open>timeout\<close> is
  the one it was built with; if the test is finished, or that timeout is zero or
  negative, no timer is scheduled, so none can fire.
\<close>

theorem liveness_timer:
  "props (ping t) =
     (props t)\<lparr>timer := (if \<not> finished (props t) \<and> 0 < timeout (props t)
                         then Some (timeout (props t)) else None)\<rparr> \<and>
   contents (ping t) = contents t \<and>
   ping (modify (\<lambda>p. p\<lparr>timer := previous\<rparr>) t) = ping t \<and>
   (timer (props t) \<noteq> None \<and> \<not> finished (props t) \<longrightarrow>
      timerFires t = finish (JStr ''timeout'') t \<and>
      finished (props (fst (timerFires t))) \<and>
      finishReason (props (fst (timerFires t))) = JStr ''timeout'' \<and>
      timer (props (fst (timerFires t))) = None \<and>
      contents (fst (timerFires t)) =
        contents t @
        [Annotation ''error''
           (JStr (''Test timed out due to no activity in '' @ show_int (timeout (props t)) @
                  '' milliseconds.''))]) \<and>
   timeout (props (fst (exec evs (Test nm tmo cb)))) = timeout (props (Test nm tmo cb)) \<and>
   (finished (props (fst (exec evs (Test nm tmo cb)))) \<or>
    timeout (props (Test nm tmo cb)) \<le> 0 \<longrightarrow>
      timer (props (fst (exec evs (Test nm tmo cb)))) = None \<and>
      timerFires (fst (exec evs (Test nm tmo cb))) = (fst (exec evs (Test nm tmo cb)), []))"
proof -
  have pinged: "props (ping t) =
     (props t)\<lparr>timer := (if \<not> finished (props t) \<and> 0 < timeout (props t)
                         then Some (timeout (props t)) else None)\<rparr>"
    by (rule props_ping)
  have log: "contents (ping t) = contents t"
    by simp
  have cancelled: "ping (modify (\<lambda>p. p\<lparr>timer := previous\<rparr>) t) = ping t"
    by (rule ping_forgets)
  have firing: "timer (props t) \<noteq> None \<and> \<not> finished (props t) \<longrightarrow>
      timerFires t = finish (JStr ''timeout'') t \<and>
      finished (props (fst (timerFires t))) \<and>
      finishReason (props (fst (timerFires t))) = JStr ''timeout'' \<and>
      timer (props (fst (timerFires t))) = None \<and>
      contents (fst (timerFires t)) =
        contents t @
        [Annotation ''error''
           (JStr (''Test timed out due to no activity in '' @ show_int (timeout (props t)) @
                  '' milliseconds.''))]"
  proof (intro impI, elim conjE)
    assume scheduled: "timer (props t) \<noteq> None" and unfinished: "\<not> finished (props t)"
    from scheduled have "timerFires t = finish (JStr ''timeout'') t"
      by (auto simp add: timerFires_def)
    with unfinished show "timerFires t = finish (JStr ''timeout'') t \<and>
      finished (props (fst (timerFires t))) \<and>
      finishReason (props (fst (timerFires t))) = JStr ''timeout'' \<and>
      timer (props (fst (timerFires t))) = None \<and>
      contents (fst (timerFires t)) =
        contents t @
        [Annotation ''error''
           (JStr (''Test timed out due to no activity in '' @ show_int (timeout (props t)) @
                  '' milliseconds.''))]"
      by (simp add: props_finish_first contents_finish_first)
  qed
  let ?t = "fst (exec evs (Test nm tmo cb))"
  note reach = exec_timer [OF timer_Test, of evs nm tmo cb]
  from reach have unchanged: "timeout (props ?t) = timeout (props (Test nm tmo cb))"
    by blast
  have quiet: "finished (props ?t) \<or> timeout (props (Test nm tmo cb)) \<le> 0 \<longrightarrow>
      timer (props ?t) = None \<and> timerFires ?t = (?t, [])"
  proof
    assume "finished (props ?t) \<or> timeout (props (Test nm tmo cb)) \<le> 0"
    with reach have "timer (props ?t) = None"
      by auto
    then show "timer (props ?t) = None \<and> timerFires ?t = (?t, [])"
      by (simp add: timerFires_def)
  qed
  show ?thesis
    by (intro conjI pinged log cancelled firing unchanged quiet)
qed

theorem liveness_timer_witness:
  "(timer (props (Test ''t'' (Number 50) Undefined)) \<noteq> None \<and>
    \<not> finished (props (Test ''t'' (Number 50) Undefined))) \<and>
   finishReason (props (fst (timerFires (Test ''t'' (Number 50) Undefined)))) = JStr ''timeout'' \<and>
   contents (fst (timerFires (Test ''t'' (Number 50) Undefined))) =
     [Annotation ''error'' (JStr ''Test timed out due to no activity in 50 milliseconds.'')] \<and>
   finished (props (fst (exec [Finish JUndefined, Comment (JStr ''late'')]
     (Test ''t'' (Number 50) Undefined)))) \<and>
   timer (props (fst (exec [Finish JUndefined, Comment (JStr ''late'')]
     (Test ''t'' (Number 50) Undefined)))) = None \<and>
   timeout (props (Test ''t'' (Number 0) Undefined)) \<le> 0 \<and>
   timer (props (fst (exec [Check (Value (JBool True)) ''a'']
     (Test ''t'' (Number 0) Undefined)))) = None"
proof -
  have scheduled: "timer (props (Test ''t'' (Number 50) Undefined)) \<noteq> None \<and>
      \<not> finished (props (Test ''t'' (Number 50) Undefined))"
    by code_simp
  have before: "contents (Test ''t'' (Number 50) Undefined) = []"
    "timeout (props (Test ''t'' (Number 50) Undefined)) = 50"
    "show_int 50 = ''50''"
    by code_simp+
  have over: "finished (props (fst (exec [Finish JUndefined, Comment (JStr ''late'')]
      (Test ''t'' (Number 50) Undefined))))"
    by code_simp
  have disabled: "timeout (props (Test ''t'' (Number 0) Undefined)) \<le> 0"
    by code_simp
  note fired = liveness_timer
    [where t = "Test ''t'' (Number 50) Undefined" and evs = "[Finish JUndefined, Comment (JStr ''late'')]"
       and nm = "''t''" and tmo = "Number 50" and cb = Undefined]
  note never = liveness_timer
    [where t = "Test ''t'' (Number 0) Undefined" and evs = "[Check (Value (JBool True)) ''a'']"
       and nm = "''t''" and tmo = "Number 0" and cb = Undefined]
  from fired scheduled
  have "finishReason (props (fst (timerFires (Test ''t'' (Number 50) Undefined)))) = JStr ''timeout''"
    and "contents (fst (timerFires (Test ''t'' (Number 50) Undefined))) =
      contents (Test ''t'' (Number 50) Undefined) @
      [Annotation ''error''
         (JStr (''Test timed out due to no activity in '' @
                show_int (timeout (props (Test ''t'' (Number 50) Undefined))) @
                '' milliseconds.''))]"
    by blast+
  moreover from fired over
  have "timer (props (fst (exec [Finish JUndefined, Comment (JStr ''late'')]
      (Test ''t'' (Number 50) Undefined)))) = None"
    by blast
  moreover from never disabled
  have "timer (props (fst (exec [Check (Value (JBool True)) ''a'']
      (Test ''t'' (Number 0) Undefined)))) = None"
    by blast
  ultimately show ?thesis
    using scheduled over disabled by (simp add: before)
qed

section \<open>A checkpoint whose function throws\<close>

text \<open>
  Claim C7 at a function that throws a falsy value. \<open>check\<close> keeps the thrown value in
  \<open>error\<close> and records it under \<open>if (error)\<close>, so for
  \<open>check(function () { throw 0; }, "x")\<close> on a new test the checkpoint is recorded as
  failed and \<open>false\<close> is returned, but no error annotation follows the checkpoint and
  \<open>errors\<close> stays zero.
\<close>

theorem check_falsy_throw_unrecorded:
  "check (Callable (Throws (JNum 0))) ''x'' (Test ''t'' (Number 0) Undefined) =
     (JBool False,
      TestObject
        \<lparr>name = ''t'', passed = 0, failed = 1, expected = None, total = 1, pending = 0,
         finished = False, finishReason = JNull, errors = 0, timeout = 0, timer = None,
         clientFinished = Undefined\<rparr>
        [Checkpoint ''x'' False],
      [])"
  by code_simp

lemma props_checkExpected:
  "\<not> finished (props t) \<Longrightarrow>
   props (fst (checkExpected t)) =
     (if expected (props t) = Some (total (props t))
      then (props t)\<lparr>finished := True, finishReason := JUndefined, timer := None\<rparr>
      else props t)"
  by (simp add: checkExpected_eq props_finish_normally)

text \<open>
  What \<open>check\<close> does with a function that throws, on an unfinished test: it returns
  \<open>false\<close>; the failed checkpoint is appended and \<open>failed\<close> and \<open>total\<close> each grow
  by one; the thrown value follows the checkpoint as an error annotation, and is counted
  in \<open>errors\<close>, exactly when it is truthy; and only then is \<open>expected\<close> compared with
  the new \<open>total\<close>.
\<close>

theorem check_callable_throws:
  assumes "\<not> finished (props t)"
  shows "fst (check (Callable (Throws e)) nm t) = JBool False \<and>
    contents (fst (snd (check (Callable (Throws e)) nm t))) =
      contents t @ Checkpoint nm False # (if truthy e then [Annotation ''error'' e] else []) \<and>
    failed (props (fst (snd (check (Callable (Throws e)) nm t)))) = failed (props t) + 1 \<and>
    total (props (fst (snd (check (Callable (Throws e)) nm t)))) = total (props t) + 1 \<and>
    passed (props (fst (snd (check (Callable (Throws e)) nm t)))) = passed (props t) \<and>
    errors (props (fst (snd (check (Callable (Throws e)) nm t)))) =
      (if truthy e then errors (props t) + 1 else errors (props t)) \<and>
    finished (props (fst (snd (check (Callable (Throws e)) nm t)))) =
      (expected (props t) = Some (total (props t) + 1))"
proof -
  let ?counted = "modify (\<lambda>p. p\<lparr>total := total p + 1\<rparr>)
    (modify (\<lambda>p. p\<lparr>failed := failed p + 1\<rparr>) (push (Checkpoint nm False) (ping t)))"
  show ?thesis
  proof (cases "truthy e")
    case True
    have open_still: "\<not> finished (props (error e ?counted))"
      using assms by (simp add: props_ping props_error)
    have "check (Callable (Throws e)) nm t = (JBool False, checkExpected (error e ?counted))"
      using assms True by (simp add: check_unfinished Let_def)
    then show ?thesis
      using True assms
      by (simp add: props_checkExpected [OF open_still] contents_checkExpected [OF open_still]
          props_ping props_error)
  next
    case False
    have open_still: "\<not> finished (props ?counted)"
      using assms by (simp add: props_ping)
    have "check (Callable (Throws e)) nm t = (JBool False, checkExpected ?counted)"
      using assms False by (simp add: check_unfinished Let_def)
    then show ?thesis
      using False assms
      by (simp add: props_checkExpected [OF open_still] contents_checkExpected [OF open_still]
          props_ping)
  qed
qed

theorem check_callable_throws_witness:
  "\<not> finished (props example_root) \<and> truthy (JObj ''Error: boom'') \<and>
   fst (check (Callable (Throws (JObj ''Error: boom''))) ''x'' example_root) = JBool False \<and>
   contents (fst (snd (check (Callable (Throws (JObj ''Error: boom''))) ''x'' example_root))) =
     [Checkpoint ''x'' False, Annotation ''error'' (JObj ''Error: boom'')] \<and>
   failed (props (fst (snd (check (Callable (Throws (JObj ''Error: boom''))) ''x'' example_root))))
     = 1"
proof -
  have unfinished: "\<not> finished (props example_root)"
    by code_simp
  have before: "contents example_root = []" "failed (props example_root) = 0"
    by code_simp+
  from check_callable_throws [OF unfinished, of "JObj ''Error: boom''" "''x''"]
  show ?thesis
    using unfinished before by simp
qed

end
